theory Spec2Isabelle
  imports Main "HOL-Library.Product_Lexorder" "HOL-Library.AList" "HOL-Library.Multiset"
begin

section \<open>Values of the loaded document\<close>

text \<open>
  \<^verbatim>\<open>json.load\<close> turns the input file into Python values: \<^verbatim>\<open>None\<close>, booleans, integers,
  strings, lists and dictionaries. A dictionary keeps its keys in insertion order, so it is
  an association list, looked up with \<open>map_of\<close>. A character is a code point below 256.
  Floating-point numbers are left out of the value type.
\<close>

datatype json =
    JNull
  | JBool bool
  | JInt int
  | JStr string
  | JArr "json list"
  | JObj "(string \<times> json) list"

datatype error =
    FileNotFoundError
  | JSONDecodeError
  | AttributeError
  | TypeError
  | ValueError

text \<open>Truth value of an object, as \<^verbatim>\<open>if x:\<close> and \<^verbatim>\<open>not x\<close> test it.\<close>

fun truthy :: "json \<Rightarrow> bool" where
  "truthy JNull = False"
| "truthy (JBool b) = b"
| "truthy (JInt n) = (n \<noteq> 0)"
| "truthy (JStr s) = (s \<noteq> [])"
| "truthy (JArr xs) = (xs \<noteq> [])"
| "truthy (JObj kvs) = (kvs \<noteq> [])"

text \<open>\<^verbatim>\<open>d.get(k)\<close> and \<^verbatim>\<open>d.get(k, default)\<close> on a dictionary.\<close>

definition dict_get_default :: "(string \<times> json) list \<Rightarrow> string \<Rightarrow> json \<Rightarrow> json" where
  "dict_get_default d k dflt = (case map_of d k of None \<Rightarrow> dflt | Some v \<Rightarrow> v)"

definition dict_get :: "(string \<times> json) list \<Rightarrow> string \<Rightarrow> json" where
  "dict_get d k = dict_get_default d k JNull"

text \<open>\<^verbatim>\<open>sep.join(parts)\<close> on a list of strings.\<close>

fun join :: "string \<Rightarrow> string list \<Rightarrow> string" where
  "join sep [] = []"
| "join sep [x] = x"
| "join sep (x # y # ys) = x @ sep @ join sep (y # ys)"

subsection \<open>Text form of a value\<close>

fun str_nat :: "nat \<Rightarrow> string" where
  "str_nat n =
     (if n < 10 then [''0123456789'' ! n]
      else str_nat (n div 10) @ [''0123456789'' ! (n mod 10)])"

definition str_int :: "int \<Rightarrow> string" where
  "str_int i = (if i < 0 then CHR ''-'' # str_nat (nat (- i)) else str_nat (nat i))"

definition printable :: "char \<Rightarrow> bool" where
  "printable c =
     (let n = (of_char c :: nat)
      in (32 \<le> n \<and> n < 127) \<or> (161 \<le> n \<and> n \<noteq> 173))"

definition hex_escape :: "char \<Rightarrow> string" where
  "hex_escape c =
     (let n = (of_char c :: nat)
      in [CHR 0x5C, CHR ''x'', ''0123456789abcdef'' ! (n div 16), ''0123456789abcdef'' ! (n mod 16)])"

definition repr_char :: "char \<Rightarrow> char \<Rightarrow> string" where
  "repr_char quote c =
     (if c = quote \<or> c = CHR 0x5C then [CHR 0x5C, c]
      else if c = CHR 0x09 then [CHR 0x5C, CHR ''t'']
      else if c = CHR 0x0A then [CHR 0x5C, CHR ''n'']
      else if c = CHR 0x0D then [CHR 0x5C, CHR ''r'']
      else if printable c then [c]
      else hex_escape c)"

definition repr_str :: "string \<Rightarrow> string" where
  "repr_str s =
     (let quote = (if CHR 0x27 \<in> set s \<and> CHR 0x22 \<notin> set s then CHR 0x22 else CHR 0x27)
      in quote # concat (map (repr_char quote) s) @ [quote])"

fun py_repr :: "json \<Rightarrow> string"
  and repr_items :: "json list \<Rightarrow> string list"
  and repr_pairs :: "(string \<times> json) list \<Rightarrow> string list" where
  "py_repr JNull = ''None''"
| "py_repr (JBool b) = (if b then ''True'' else ''False'')"
| "py_repr (JInt i) = str_int i"
| "py_repr (JStr s) = repr_str s"
| "py_repr (JArr xs) = ''['' @ join '', '' (repr_items xs) @ '']''"
| "py_repr (JObj kvs) = ''{'' @ join '', '' (repr_pairs kvs) @ ''}''"
| "repr_items [] = []"
| "repr_items (x # xs) = py_repr x # repr_items xs"
| "repr_pairs [] = []"
| "repr_pairs ((k, v) # kvs) = (repr_str k @ '': '' @ py_repr v) # repr_pairs kvs"

text \<open>What an f-string puts in place of \<^verbatim>\<open>{x}\<close>: a string as it is, anything else by its repr.\<close>

fun py_str :: "json \<Rightarrow> string" where
  "py_str (JStr s) = s"
| "py_str v = py_repr v"

section \<open>The date parser\<close>

text \<open>
  A date and time is compared field by field, year first. \<^verbatim>\<open>strptime\<close> with the format
  \<^verbatim>\<open>%Y-%m-%d\<close> leaves the time of day at zero, so a value is the triple of year, month and
  day under the lexicographic order.
\<close>

type_synonym datetime = "nat \<times> nat \<times> nat"

definition datetime_min :: datetime where
  "datetime_min = (1, 1, 1)"

definition is_digit :: "char \<Rightarrow> bool" where
  "is_digit c = (48 \<le> (of_char c :: nat) \<and> (of_char c :: nat) \<le> 57)"

definition digit_val :: "char \<Rightarrow> nat" where
  "digit_val c = of_char c - 48"

text \<open>
  \<^verbatim>\<open>strptime\<close> compiles the format into the regular expression
  \<^verbatim>\<open>(?P<Y>\d\d\d\d)-(?P<m>1[0-2]|0[1-9]|[1-9])-(?P<d>3[0-1]|[1-2]\d|0[1-9]|[1-9]| [1-9])\<close>
  and matches it at the start of the string. A group is the list of its matches, as pairs
  of the captured text and the rest of the string, in the order in which the backtracking
  matcher tries the alternatives.
\<close>

fun re_Y :: "string \<Rightarrow> (string \<times> string) list" where
  "re_Y (a # b # c # d # rest) =
     (if is_digit a \<and> is_digit b \<and> is_digit c \<and> is_digit d then [([a, b, c, d], rest)] else [])"
| "re_Y _ = []"

fun re_lit :: "char \<Rightarrow> string \<Rightarrow> string list" where
  "re_lit c (x # rest) = (if x = c then [rest] else [])"
| "re_lit c [] = []"

text \<open>Two characters, the first in \<open>as\<close> and the second in \<open>bs\<close>; one character in \<open>as\<close>.\<close>

fun re_two :: "char set \<Rightarrow> char set \<Rightarrow> string \<Rightarrow> (string \<times> string) list" where
  "re_two as bs (a # b # rest) = (if a \<in> as \<and> b \<in> bs then [([a, b], rest)] else [])"
| "re_two as bs _ = []"

fun re_one :: "char set \<Rightarrow> string \<Rightarrow> (string \<times> string) list" where
  "re_one as (a # rest) = (if a \<in> as then [([a], rest)] else [])"
| "re_one as [] = []"

definition digits_1_9 :: "char set" where
  "digits_1_9 = set ''123456789''"

definition digits_0_9 :: "char set" where
  "digits_0_9 = set ''0123456789''"

definition re_m :: "string \<Rightarrow> (string \<times> string) list" where
  "re_m s =
     re_two {CHR ''1''} (set ''012'') s @ re_two {CHR ''0''} digits_1_9 s @ re_one digits_1_9 s"

definition re_d :: "string \<Rightarrow> (string \<times> string) list" where
  "re_d s =
     re_two {CHR ''3''} (set ''01'') s @ re_two (set ''12'') digits_0_9 s
       @ re_two {CHR ''0''} digits_1_9 s @ re_one digits_1_9 s @ re_two {CHR '' ''} digits_1_9 s"

definition re_match :: "string \<Rightarrow> ((string \<times> string \<times> string) \<times> string) list" where
  "re_match s =
     concat (map (\<lambda>(y, r1).
       concat (map (\<lambda>r2.
         concat (map (\<lambda>(m, r3).
           concat (map (\<lambda>r4.
             map (\<lambda>(d, r5). ((y, m, d), r5)) (re_d r4))
           (re_lit CHR ''-'' r3)))
         (re_m r2)))
       (re_lit CHR ''-'' r1)))
     (re_Y s))"

text \<open>\<^verbatim>\<open>int(text)\<close> on a captured group: blanks around the digits are dropped.\<close>

definition py_int :: "string \<Rightarrow> nat" where
  "py_int s = foldl (\<lambda>n c. 10 * n + digit_val c) 0 (filter (\<lambda>c. c \<noteq> CHR '' '') s)"

definition is_leap :: "nat \<Rightarrow> bool" where
  "is_leap y = (y mod 4 = 0 \<and> (y mod 100 \<noteq> 0 \<or> y mod 400 = 0))"

definition days_in_month :: "nat \<Rightarrow> nat \<Rightarrow> nat" where
  "days_in_month y m =
     (if m = 2 then (if is_leap y then 29 else 28)
      else if m = 4 \<or> m = 6 \<or> m = 9 \<or> m = 11 then 30
      else 31)"

text \<open>The constructor of a date: the year is within 1 to 9999 and the day exists.\<close>

definition make_date :: "nat \<Rightarrow> nat \<Rightarrow> nat \<Rightarrow> error + datetime" where
  "make_date y m d =
     (if 1 \<le> y \<and> y \<le> 9999 \<and> 1 \<le> m \<and> m \<le> 12 \<and> 1 \<le> d \<and> d \<le> days_in_month y m
      then Inr (y, m, d) else Inl ValueError)"

text \<open>
  \<^verbatim>\<open>datetime.strptime(date_str, "%Y-%m-%d")\<close>: \<^verbatim>\<open>TypeError\<close> on anything but a string,
  \<^verbatim>\<open>ValueError\<close> when the expression does not match, when text is left after the match,
  or when the date does not exist.
\<close>

definition strptime :: "json \<Rightarrow> error + datetime" where
  "strptime date_str =
     (case date_str of
        JStr s \<Rightarrow>
          (case re_match s of
             [] \<Rightarrow> Inl ValueError
           | ((y, m, d), rest) # _ \<Rightarrow>
               if rest \<noteq> [] then Inl ValueError
               else make_date (py_int y) (py_int m) (py_int d))
      | _ \<Rightarrow> Inl TypeError)"

text \<open>\<^verbatim>\<open>_parse_date\<close>: the two exceptions it catches become the minimum date.\<close>

definition parse_date :: "json \<Rightarrow> error + datetime" where
  "parse_date date_str =
     (case strptime date_str of
        Inr d \<Rightarrow> Inr d
      | Inl e \<Rightarrow> if e = ValueError \<or> e = TypeError then Inr datetime_min else Inl e)"

section \<open>The generator\<close>

record generator =
  json_path :: string
  output_path :: string
  data :: json

text \<open>
  The files the program can see, by path, and the lines printed so far. A path exists when
  it has a file, and a file can be written at any path. The parser of \<^verbatim>\<open>json.load\<close> is
  the parameter \<open>loads\<close>: \<open>None\<close> is its \<^verbatim>\<open>JSONDecodeError\<close>.
\<close>

record world =
  files :: "string \<rightharpoonup> string"
  stdout :: "string list"

definition print :: "string \<Rightarrow> world \<Rightarrow> world" where
  "print line w = w\<lparr>stdout := stdout w @ [line]\<rparr>"

definition load_data :: "(string \<Rightarrow> json option) \<Rightarrow> world \<Rightarrow> string \<Rightarrow> error + json" where
  "load_data loads w path =
     (case files w path of
        None \<Rightarrow> Inl FileNotFoundError
      | Some text \<Rightarrow> (case loads text of None \<Rightarrow> Inl JSONDecodeError | Some v \<Rightarrow> Inr v))"

definition init :: "(string \<Rightarrow> json option) \<Rightarrow> world \<Rightarrow> string \<Rightarrow> string \<Rightarrow> error + generator" where
  "init loads w jpath opath =
     (case load_data loads w jpath of
        Inl e \<Rightarrow> Inl e
      | Inr d \<Rightarrow> Inr \<lparr>json_path = jpath, output_path = opath, data = d\<rparr>)"

subsection \<open>Badges and entries\<close>

definition arxiv_badge :: "string \<Rightarrow> string" where
  "arxiv_badge link = ''[![arXiv](https://img.shields.io/badge/arXiv-Paper-b31b1b.svg)]('' @ link @ '')''"

definition github_badge :: "string \<Rightarrow> string" where
  "github_badge link =
     ''[![GitHub](https://img.shields.io/badge/GitHub-Repo-181717.svg?logo=github)]('' @ link @ '')''"

definition generate_badges :: "(string \<times> json) list \<Rightarrow> string" where
  "generate_badges entry =
     (let badges = [];
          badges = (if truthy (dict_get entry ''arxiv'')
                    then badges @ [arxiv_badge (py_str (dict_get entry ''arxiv''))] else badges);
          badges = (if truthy (dict_get entry ''github'')
                    then badges @ [github_badge (py_str (dict_get entry ''github''))] else badges)
      in join '' '' badges)"

text \<open>
  \<^verbatim>\<open>", ".join(x)\<close>: a list joins its strings and fails on any other element, a string joins
  its characters, a dictionary joins its keys, nothing else can be iterated.
\<close>

fun the_strings :: "json list \<Rightarrow> error + string list" where
  "the_strings [] = Inr []"
| "the_strings (JStr s # xs) =
     (case the_strings xs of Inl e \<Rightarrow> Inl e | Inr ss \<Rightarrow> Inr (s # ss))"
| "the_strings (_ # xs) = Inl TypeError"

fun join_iterable :: "string \<Rightarrow> json \<Rightarrow> error + string" where
  "join_iterable sep (JArr xs) =
     (case the_strings xs of Inl e \<Rightarrow> Inl e | Inr ss \<Rightarrow> Inr (join sep ss))"
| "join_iterable sep (JStr s) = Inr (join sep (map (\<lambda>c. [c]) s))"
| "join_iterable sep (JObj kvs) = Inr (join sep (map fst kvs))"
| "join_iterable sep _ = Inl TypeError"

definition format_entry :: "json \<Rightarrow> error + string" where
  "format_entry entry =
     (case entry of
        JObj d \<Rightarrow>
          (let title = dict_get_default d ''title'' (JStr ''Untitled'');
               url = dict_get_default d ''url'' (JStr ''#'');
               venue = dict_get_default d ''venue'' (JStr ''Preprint'')
           in case join_iterable '', '' (dict_get_default d ''keywords'' (JArr [])) of
                Inl e \<Rightarrow> Inl e
              | Inr keywords \<Rightarrow>
                  (let badges = generate_badges d;
                       line = ''**'' @ py_str title @ ''** <br> [`'' @ py_str venue @ ''`]('' @ py_str url
                                @ '') '' @ badges;
                       line = (if keywords \<noteq> [] then line @ '' <br> _Keywords: '' @ keywords @ ''_''
                               else line)
                   in Inr (line @ '' <br> <br> '')))
      | _ \<Rightarrow> Inl AttributeError)"

subsection \<open>Sorting a category\<close>

fun mapM :: "('a \<Rightarrow> error + 'b) \<Rightarrow> 'a list \<Rightarrow> error + 'b list" where
  "mapM f [] = Inr []"
| "mapM f (x # xs) =
     (case f x of
        Inl e \<Rightarrow> Inl e
      | Inr y \<Rightarrow> (case mapM f xs of Inl e \<Rightarrow> Inl e | Inr ys \<Rightarrow> Inr (y # ys)))"

text \<open>
  \<^verbatim>\<open>xs.sort(key=f, reverse=True)\<close>: the keys are computed first, in list order, and the first
  exception ends the call. Then the list is reversed, sorted by key with a stable sort, and
  reversed again.
\<close>

definition sort_reverse :: "('a \<Rightarrow> error + 'k::linorder) \<Rightarrow> 'a list \<Rightarrow> error + 'a list" where
  "sort_reverse f xs =
     (case mapM f xs of
        Inl e \<Rightarrow> Inl e
      | Inr ks \<Rightarrow> Inr (map snd (rev (sort_key fst (rev (zip ks xs))))))"

text \<open>The key of the sort, \<^verbatim>\<open>lambda x: self._parse_date(x.get("date"))\<close>.\<close>

definition date_key :: "json \<Rightarrow> error + datetime" where
  "date_key x = (case x of JObj d \<Rightarrow> parse_date (dict_get d ''date'') | _ \<Rightarrow> Inl AttributeError)"

definition generate_section :: "generator \<Rightarrow> string \<Rightarrow> string \<Rightarrow> error + (string \<times> generator)" where
  "generate_section self title key =
     (case data self of
        JObj d \<Rightarrow>
          (let entries = dict_get_default d key (JArr [])
           in if \<not> truthy entries then Inr ([], self)
              else (case entries of
                      JArr es \<Rightarrow>
                        (case sort_reverse date_key es of
                           Inl e \<Rightarrow> Inl e
                         | Inr sorted_es \<Rightarrow>
                             (case mapM format_entry sorted_es of
                                Inl e \<Rightarrow> Inl e
                              | Inr blocks \<Rightarrow>
                                  Inr (join ''\<newline>'' ((''## '' @ title @ ''\<newline>'') # blocks) @ ''\<newline>'',
                                       self\<lparr>data := JObj (AList.update key (JArr sorted_es) d)\<rparr>)))
                    | _ \<Rightarrow> Inl AttributeError))
      | _ \<Rightarrow> Inl AttributeError)"

subsection \<open>The document\<close>

definition generate_intro :: string where
  "generate_intro =
     ''<h1 align='' @ [CHR 0x22] @ ''center'' @ [CHR 0x22] @ ''>Awesome Story Visualization</h1>\<newline>\<newline>''
     @ ''A curated list of resources, papers, and benchmarks focused on ''
     @ ''**Story Visualization**.\<newline>\<newline>''
     @ ''Entries are sorted by date (newest first).\<newline>\<newline>''
     @ ''If you want to contribute, please edit the `citations.json` file, ''
     @ ''run the generator script, and create a pull request.\<newline>\<newline>''
     @ ''If you are looking for Storytelling, text based, take a look at [Awesome-Story-Generation](https://github.com/yingpengma/Awesome-Story-Generation).\<newline>\<newline>''
     @ ''---\<newline>''"

text \<open>The list \<^verbatim>\<open>content\<close> of \<^verbatim>\<open>generate\<close>, joined into \<^verbatim>\<open>final_markdown\<close>.\<close>

definition final_markdown :: "generator \<Rightarrow> error + (string \<times> generator)" where
  "final_markdown self =
     (case generate_section self ''Papers'' ''papers'' of
        Inl e \<Rightarrow> Inl e
      | Inr (papers, g1) \<Rightarrow>
          (case generate_section g1 ''Benchmarks'' ''benchmarks'' of
             Inl e \<Rightarrow> Inl e
           | Inr (benchmarks, g2) \<Rightarrow>
               (case generate_section g2 ''Datasets'' ''datasets'' of
                  Inl e \<Rightarrow> Inl e
                | Inr (datasets, g3) \<Rightarrow>
                    Inr (join ''\<newline>'' [generate_intro, papers, benchmarks, datasets], g3))))"

definition generate :: "generator \<Rightarrow> world \<Rightarrow> world \<times> (error + generator)" where
  "generate self w =
     (let w1 = print (''Reading from '' @ json_path self @ ''...'') w
      in case final_markdown self of
           Inl e \<Rightarrow> (w1, Inl e)
         | Inr (text, g) \<Rightarrow>
             (let w2 = w1\<lparr>files := (files w1)(output_path self \<mapsto> text)\<rparr>;
                  w3 = print (''Successfully generated '' @ output_path self @ '' with sorted entries!'') w2
              in (w3, Inr g)))"

text \<open>The script: build the generator, then generate. \<open>main\<close> is the run with the paths of the source.\<close>

definition run :: "(string \<Rightarrow> json option) \<Rightarrow> string \<Rightarrow> string \<Rightarrow> world \<Rightarrow> world \<times> (error + generator)" where
  "run loads jpath opath w =
     (case init loads w jpath opath of
        Inl e \<Rightarrow> (w, Inl e)
      | Inr g \<Rightarrow> generate g w)"

definition main :: "(string \<Rightarrow> json option) \<Rightarrow> world \<Rightarrow> world \<times> (error + generator)" where
  "main loads w = run loads ''citations.json'' ''README.md'' w"

section \<open>Vocabulary of the properties\<close>

text \<open>The text shown for field \<open>k\<close> of an entry: the default when the key is absent.\<close>

definition text_or :: "(string \<times> json) list \<Rightarrow> string \<Rightarrow> string \<Rightarrow> string" where
  "text_or e k dflt = (case map_of e k of None \<Rightarrow> dflt | Some v \<Rightarrow> py_str v)"

text \<open>The keywords of an entry whose \<^verbatim>\<open>keywords\<close> field is absent or a list of strings.\<close>

definition keywords_of :: "(string \<times> json) list \<Rightarrow> string list option" where
  "keywords_of e =
     (case map_of e ''keywords'' of
        None \<Rightarrow> Some []
      | Some (JArr xs) \<Rightarrow> (case the_strings xs of Inr ks \<Rightarrow> Some ks | Inl _ \<Rightarrow> None)
      | Some _ \<Rightarrow> None)"

text \<open>The line of \<^verbatim>\<open>_format_entry\<close> as a function of its five parts.\<close>

definition entry_line :: "string \<Rightarrow> string \<Rightarrow> string \<Rightarrow> string \<Rightarrow> string \<Rightarrow> string" where
  "entry_line title venue url badges keywords =
     ''**'' @ title @ ''** <br> [`'' @ venue @ ''`]('' @ url @ '') '' @ badges
       @ (if keywords = [] then [] else '' <br> _Keywords: '' @ keywords @ ''_'') @ '' <br> <br> ''"

text \<open>The link of a field that is present and not empty (for a string: not \<^verbatim>\<open>""\<close>).\<close>

definition link_of :: "(string \<times> json) list \<Rightarrow> string \<Rightarrow> string option" where
  "link_of e k = (case map_of e k of None \<Rightarrow> None | Some v \<Rightarrow> if truthy v then Some (py_str v) else None)"

text \<open>The text of a section from its title and the blocks of its entries.\<close>

definition section_text :: "string \<Rightarrow> string list \<Rightarrow> string" where
  "section_text title blocks = join ''\<newline>'' ((''## '' @ title @ ''\<newline>'') # blocks) @ ''\<newline>''"

text \<open>The key under which a dictionary entry is sorted.\<close>

definition the_key :: "json \<Rightarrow> datetime" where
  "the_key x = (case date_key x of Inr t \<Rightarrow> t | Inl _ \<Rightarrow> datetime_min)"

text \<open>
  An entry has a valid date when \<^verbatim>\<open>strptime\<close> accepts its \<^verbatim>\<open>date\<close> field; it is dated
  after the minimum when that date is not 0001-01-01, the value of \<^verbatim>\<open>datetime.min\<close>.
\<close>

definition has_valid_date :: "json \<Rightarrow> bool" where
  "has_valid_date x =
     (case x of
        JObj d \<Rightarrow> (case strptime (dict_get d ''date'') of Inr _ \<Rightarrow> True | Inl _ \<Rightarrow> False)
      | _ \<Rightarrow> False)"

definition dated_after_min :: "json \<Rightarrow> bool" where
  "dated_after_min x =
     (case x of
        JObj d \<Rightarrow> (case strptime (dict_get d ''date'') of Inr t \<Rightarrow> t \<noteq> datetime_min | Inl _ \<Rightarrow> False)
      | _ \<Rightarrow> False)"

text \<open>
  The section of one category of a catalog: the text \<^verbatim>\<open>_generate_section\<close> returns for it,
  or the exception it raises.
\<close>

definition section_of :: "json \<Rightarrow> string \<Rightarrow> string \<Rightarrow> error + string" where
  "section_of catalog title key =
     map_sum id fst (generate_section \<lparr>json_path = [], output_path = [], data = catalog\<rparr> title key)"

text \<open>
  Category \<open>k\<close> of the catalog \<open>d'\<close> is category \<open>k\<close> of \<open>d\<close> with its list sorted: the same
  entries, in the order of the sort. A value that is no list is the same in both.
\<close>

definition reordered :: "(string \<times> json) list \<Rightarrow> (string \<times> json) list \<Rightarrow> string \<Rightarrow> bool" where
  "reordered d d' k =
     (case map_of d k of
        Some (JArr es) \<Rightarrow>
          (\<exists>ss. sort_reverse date_key es = Inr ss \<and> mset ss = mset es \<and> map_of d' k = Some (JArr ss))
      | _ \<Rightarrow> map_of d' k = map_of d k)"

section \<open>The date parser never fails\<close>

lemma strptime_errors: "strptime x = Inl e \<Longrightarrow> e = ValueError \<or> e = TypeError"
  by (auto simp: strptime_def make_date_def split: json.splits list.splits prod.splits if_splits)

lemma make_date_ge_min: "make_date y m d = Inr t \<Longrightarrow> datetime_min \<le> t"
  by (auto simp: make_date_def datetime_min_def less_eq_prod_def split: if_splits)

lemma strptime_ge_min: "strptime x = Inr t \<Longrightarrow> datetime_min \<le> t"
  by (auto simp: strptime_def split: json.splits list.splits prod.splits if_splits
      dest: make_date_ge_min)

text \<open>
  Claim C3. The date parser is total: whatever it is given (a well-formed date, a malformed
  or empty string, a value that is no string, or \<^verbatim>\<open>None\<close> for an absent field) it returns
  a date and raises nothing. It returns the date \<^verbatim>\<open>strptime\<close> parsed, and the minimum date
  whenever \<^verbatim>\<open>strptime\<close> fails.
\<close>

theorem parse_date_total:
  "parse_date x = Inr (case strptime x of Inr d \<Rightarrow> d | Inl e \<Rightarrow> datetime_min)"
  using strptime_errors [of x] by (auto simp: parse_date_def split: sum.splits)

theorem parse_date_total_witness:
  "parse_date JNull = Inr datetime_min \<and> parse_date (JStr []) = Inr datetime_min
   \<and> parse_date (JInt 20230105) = Inr datetime_min
   \<and> parse_date (JStr ''2023-02-30'') = Inr datetime_min
   \<and> parse_date (JStr ''05/01/2023'') = Inr datetime_min
   \<and> parse_date (JStr ''2023-01-05'') = Inr (2023, 1, 5)"
  using parse_date_total [of JNull] parse_date_total [of "JStr []"]
    parse_date_total [of "JInt 20230105"] parse_date_total [of "JStr ''2023-02-30''"]
    parse_date_total [of "JStr ''05/01/2023''"] parse_date_total [of "JStr ''2023-01-05''"]
  by (simp add: strptime_def re_match_def re_m_def re_d_def digits_1_9_def digits_0_9_def
      is_digit_def digit_val_def py_int_def make_date_def days_in_month_def is_leap_def)

section \<open>Badges and entry blocks\<close>

lemma join_iterable_keywords:
  "keywords_of e = Some ks \<Longrightarrow>
   join_iterable sep (dict_get_default e ''keywords'' (JArr [])) = Inr (join sep ks)"
  by (auto simp: keywords_of_def dict_get_default_def split: option.splits json.splits sum.splits)

lemma py_str_default:
  "py_str (dict_get_default e k (JStr d)) = text_or e k d"
  by (simp add: text_or_def dict_get_default_def split: option.splits)

lemma format_entry_line:
  assumes "keywords_of e = Some ks"
  shows "format_entry (JObj e) =
     Inr (entry_line (text_or e ''title'' ''Untitled'') (text_or e ''venue'' ''Preprint'')
            (text_or e ''url'' ''#'') (generate_badges e) (join '', '' ks))"
proof -
  have j: "join_iterable '', '' (dict_get_default e ''keywords'' (JArr [])) = Inr (join '', '' ks)"
    using assms by (rule join_iterable_keywords)
  show ?thesis
    unfolding format_entry_def
    by (simp add: j py_str_default entry_line_def Let_def)
qed

text \<open>
  Claim C5. The arXiv badge is emitted exactly when \<^verbatim>\<open>arxiv\<close> is present and not empty, the
  GitHub badge exactly when \<^verbatim>\<open>github\<close> is present and not empty; with both, the result is
  the arXiv badge, one space, the GitHub badge.
\<close>

theorem badges_spec:
  "generate_badges e =
     (case (link_of e ''arxiv'', link_of e ''github'') of
        (Some a, Some g) \<Rightarrow> arxiv_badge a @ '' '' @ github_badge g
      | (Some a, None) \<Rightarrow> arxiv_badge a
      | (None, Some g) \<Rightarrow> github_badge g
      | (None, None) \<Rightarrow> [])"
  by (simp add: generate_badges_def link_of_def dict_get_def dict_get_default_def Let_def
      split: option.splits)


theorem badges_spec_witness:
  "generate_badges [(''arxiv'', JStr ''A''), (''github'', JStr ''G'')] =
     ''[![arXiv](https://img.shields.io/badge/arXiv-Paper-b31b1b.svg)](A) [![GitHub](https://img.shields.io/badge/GitHub-Repo-181717.svg?logo=github)](G)''
   \<and> generate_badges [(''github'', JStr ''G''), (''arxiv'', JStr [])] =
     ''[![GitHub](https://img.shields.io/badge/GitHub-Repo-181717.svg?logo=github)](G)''
   \<and> generate_badges [] = []"
  using badges_spec [of "[(''arxiv'', JStr ''A''), (''github'', JStr ''G'')]"]
    badges_spec [of "[(''github'', JStr ''G''), (''arxiv'', JStr [])]"]
    badges_spec [of "[]"]
  by (simp add: link_of_def arxiv_badge_def github_badge_def)

text \<open>
  Claim C4. An entry whose \<^verbatim>\<open>keywords\<close> field is absent or a list of strings is rendered
  without an exception, whichever of its fields are absent. An absent title is shown as
  \<^verbatim>\<open>Untitled\<close>, an absent venue as \<^verbatim>\<open>Preprint\<close>, an absent url as \<^verbatim>\<open>#\<close>; absent keywords
  are the empty list, which gives no keywords line; with \<^verbatim>\<open>arxiv\<close> and \<^verbatim>\<open>github\<close> both
  absent there is no badge.
\<close>

theorem format_entry_defaults:
  assumes "keywords_of e = Some ks"
  shows "format_entry (JObj e) =
           Inr (entry_line (text_or e ''title'' ''Untitled'') (text_or e ''venue'' ''Preprint'')
                  (text_or e ''url'' ''#'') (generate_badges e) (join '', '' ks))
         \<and> (map_of e ''keywords'' = None \<longrightarrow> ks = [])
         \<and> (map_of e ''arxiv'' = None \<and> map_of e ''github'' = None \<longrightarrow> generate_badges e = [])"
proof (intro conjI impI)
  show "format_entry (JObj e) =
           Inr (entry_line (text_or e ''title'' ''Untitled'') (text_or e ''venue'' ''Preprint'')
                  (text_or e ''url'' ''#'') (generate_badges e) (join '', '' ks))"
    using assms by (rule format_entry_line)
next
  assume "map_of e ''keywords'' = None"
  with assms show "ks = []" by (simp add: keywords_of_def)
next
  assume "map_of e ''arxiv'' = None \<and> map_of e ''github'' = None"
  then show "generate_badges e = []"
    by (simp add: generate_badges_def dict_get_def dict_get_default_def)
qed

theorem format_entry_defaults_witness:
  "keywords_of [] = Some [] \<and> format_entry (JObj []) = Inr ''**Untitled** <br> [`Preprint`](#)  <br> <br> ''"
proof -
  have h: "keywords_of [] = Some []" by (simp add: keywords_of_def)
  show ?thesis
    using h format_entry_defaults [OF h]
    by (simp add: entry_line_def text_or_def)
qed

text \<open>
  Claim C10. The default stands in for an absent key only. When \<^verbatim>\<open>title\<close>, \<^verbatim>\<open>venue\<close> or
  \<^verbatim>\<open>url\<close> is present with the value null, the block shows the text of that value,
  \<^verbatim>\<open>None\<close>, in its place and not the default.
\<close>

theorem null_field_verbatim:
  assumes "keywords_of e = Some ks"
    and "k \<in> {''title'', ''venue'', ''url''}"
    and "map_of e k = Some JNull"
  shows "format_entry (JObj e) =
           Inr (entry_line (if k = ''title'' then ''None'' else text_or e ''title'' ''Untitled'')
                  (if k = ''venue'' then ''None'' else text_or e ''venue'' ''Preprint'')
                  (if k = ''url'' then ''None'' else text_or e ''url'' ''#'')
                  (generate_badges e) (join '', '' ks))"
proof -
  have "text_or e k d = ''None''" for d
    using assms(3) by (simp add: text_or_def)
  then show ?thesis
    using assms(2) format_entry_line [OF assms(1)] by auto
qed

theorem null_field_verbatim_witness:
  "keywords_of [(''title'', JNull)] = Some [] \<and> ''title'' \<in> {''title'', ''venue'', ''url''}
   \<and> map_of [(''title'', JNull)] ''title'' = Some JNull
   \<and> format_entry (JObj [(''title'', JNull)]) = Inr ''**None** <br> [`Preprint`](#)  <br> <br> ''"
proof -
  have h1: "keywords_of [(''title'', JNull)] = Some []" by (simp add: keywords_of_def)
  have h2: "''title'' \<in> {''title'', ''venue'', ''url''}" by simp
  have h3: "map_of [(''title'', JNull)] ''title'' = Some JNull" by simp
  show ?thesis
    using h1 h3 null_field_verbatim [OF h1 h2 h3]
    by (simp add: entry_line_def text_or_def generate_badges_def dict_get_def dict_get_default_def)
qed

section \<open>The order of a section\<close>

lemma mapM_Inr_iff: "mapM f xs = Inr ys \<Longrightarrow> map f xs = map Inr ys"
  by (induction xs arbitrary: ys) (auto split: sum.splits)

lemma mapM_Inr_map:
  assumes "mapM f xs = Inr ys" and "\<And>x y. f x = Inr y \<Longrightarrow> g x = y"
  shows "ys = map g xs"
  using assms(1)
proof (induction xs arbitrary: ys)
  case Nil
  then show ?case by simp
next
  case (Cons x xs)
  then show ?case by (auto split: sum.splits dest: assms(2))
qed

lemma insort_key_decorated:
  "insort_key fst (g x, x) (map (\<lambda>x. (g x, x)) ys) = map (\<lambda>x. (g x, x)) (insort_key g x ys)"
  by (induction ys) auto

lemma sort_key_decorated:
  "sort_key fst (map (\<lambda>x. (g x, x)) ys) = map (\<lambda>x. (g x, x)) (sort_key g ys)"
  by (induction ys) (simp_all add: insort_key_decorated)

lemma zip_decorated: "zip (map g xs) xs = map (\<lambda>x. (g x, x)) xs"
  by (induction xs) auto

lemma sort_reverse_Inr:
  assumes "sort_reverse f xs = Inr ss" and "\<And>x y. f x = Inr y \<Longrightarrow> g x = y"
  shows "ss = rev (sort_key g (rev xs))"
proof -
  obtain ks where ks: "mapM f xs = Inr ks"
    and ss: "ss = map snd (rev (sort_key fst (rev (zip ks xs))))"
    using assms(1) by (auto simp: sort_reverse_def split: sum.splits)
  have "ks = map g xs" using ks assms(2) by (rule mapM_Inr_map)
  then have "rev (zip ks xs) = map (\<lambda>x. (g x, x)) (rev xs)"
    by (simp add: zip_decorated rev_map)
  then show ?thesis
    by (simp add: ss sort_key_decorated rev_map comp_def)
qed

lemma sort_reverse_date_key:
  assumes "sort_reverse date_key es = Inr ss"
  shows "ss = rev (sort_key the_key (rev es))"
  using assms by (rule sort_reverse_Inr) (simp add: the_key_def)

lemma sort_reverse_keys:
  assumes "sort_reverse f xs = Inr ss" and "x \<in> set xs"
  shows "\<exists>k. f x = Inr k"
proof -
  obtain ks where "mapM f xs = Inr ks"
    using assms(1) by (auto simp: sort_reverse_def split: sum.splits)
  then have "map f xs = map Inr ks" by (simp add: mapM_Inr_iff)
  then have "f x \<in> set (map Inr ks)" using assms(2) by (metis image_eqI set_map)
  then show ?thesis by auto
qed

lemma sort_reverse_stable:
  assumes "sort_reverse date_key es = Inr ss"
  shows "filter (\<lambda>x. the_key x = k) ss = filter (\<lambda>x. the_key x = k) es"
proof -
  have "filter (\<lambda>x. the_key x = k) ss = rev (filter (\<lambda>x. the_key x = k) (sort_key the_key (rev es)))"
    by (simp add: sort_reverse_date_key [OF assms] rev_filter)
  also have "\<dots> = rev (filter (\<lambda>x. the_key x = k) (rev es))"
    by (simp only: sort_key_stable)
  also have "\<dots> = filter (\<lambda>x. the_key x = k) es"
    by (simp add: rev_filter)
  finally show ?thesis .
qed

lemma sort_reverse_descending:
  assumes "sort_reverse date_key es = Inr ss" and "i \<le> j" and "j < length ss"
  shows "the_key (ss ! j) \<le> the_key (ss ! i)"
proof -
  have "sorted (map the_key (sort_key the_key (rev es)))" by (rule sorted_sort_key)
  then have "sorted (rev (map the_key ss))"
    by (simp add: sort_reverse_date_key [OF assms(1)] rev_map)
  then have "map the_key ss ! j \<le> map the_key ss ! i"
    using assms(2,3) by (simp add: sorted_rev_iff_nth_mono)
  then show ?thesis using assms(2,3) by simp
qed

lemma the_key_undated: "\<not> has_valid_date x \<Longrightarrow> the_key x = datetime_min"
  by (auto simp: has_valid_date_def the_key_def date_key_def parse_date_def
      split: json.splits sum.splits dest: strptime_errors)

lemma the_key_dated: "dated_after_min x \<Longrightarrow> datetime_min < the_key x"
  by (auto simp: dated_after_min_def the_key_def date_key_def parse_date_def
      split: json.splits sum.splits dest: strptime_ge_min)

lemma dated_after_min_valid: "dated_after_min x \<Longrightarrow> has_valid_date x"
  by (auto simp: dated_after_min_def has_valid_date_def split: json.splits sum.splits)

lemma undated_after_dated:
  assumes "sort_reverse date_key es = Inr ss" and "i < length ss" and "j < length ss"
    and "dated_after_min (ss ! i)" and "\<not> has_valid_date (ss ! j)"
  shows "i < j"
proof (rule ccontr)
  assume "\<not> i < j"
  then have "j \<le> i" by simp
  then have "the_key (ss ! i) \<le> the_key (ss ! j)"
    using assms(2) by (rule sort_reverse_descending [OF assms(1)])
  moreover have "the_key (ss ! j) = datetime_min" using assms(5) by (rule the_key_undated)
  moreover have "datetime_min < the_key (ss ! i)" using assms(4) by (rule the_key_dated)
  ultimately show False by simp
qed

lemma generate_section_list:
  assumes "data self = JObj d" and "map_of d key = Some (JArr es)" and "es \<noteq> []"
  shows "generate_section self title key =
     (case sort_reverse date_key es of
        Inl e \<Rightarrow> Inl e
      | Inr ss \<Rightarrow>
          (case mapM format_entry ss of
             Inl e \<Rightarrow> Inl e
           | Inr blocks \<Rightarrow>
               Inr (section_text title blocks, self\<lparr>data := JObj (AList.update key (JArr ss) d)\<rparr>)))"
  using assms by (simp add: generate_section_def dict_get_default_def section_text_def split: sum.splits)

lemma generate_section_falsy:
  assumes "data self = JObj d" and "\<not> truthy (dict_get_default d key (JArr []))"
  shows "generate_section self title key = Inr ([], self)"
  using assms by (simp add: generate_section_def)

lemma generate_section_sorted:
  assumes "data self = JObj d" and "map_of d key = Some (JArr es)" and "es \<noteq> []"
    and "generate_section self title key = Inr (text, g)"
  shows "\<exists>ss blocks. sort_reverse date_key es = Inr ss \<and> mapM format_entry ss = Inr blocks
           \<and> text = section_text title blocks
           \<and> g = self\<lparr>data := JObj (AList.update key (JArr ss) d)\<rparr>"
  using assms(4) unfolding generate_section_list [OF assms(1-3)]
  by (auto split: sum.splits)

lemma set_sort_reverse:
  assumes "sort_reverse date_key es = Inr ss"
  shows "set ss = set es" and "mset ss = mset es"
  by (simp_all add: sort_reverse_date_key [OF assms])

lemma date_key_the_key:
  assumes "sort_reverse date_key es = Inr ss" and "x \<in> set es"
  shows "date_key x = Inr k \<longleftrightarrow> the_key x = k"
  using sort_reverse_keys [OF assms] by (auto simp: the_key_def)

lemma sort_reverse_stable_key:
  assumes "sort_reverse date_key es = Inr ss"
  shows "filter (\<lambda>x. date_key x = Inr k) ss = filter (\<lambda>x. date_key x = Inr k) es"
proof -
  have "filter (\<lambda>x. date_key x = Inr k) ss = filter (\<lambda>x. the_key x = k) ss"
    by (rule filter_cong) (simp_all add: date_key_the_key [OF assms] set_sort_reverse(1) [OF assms])
  also have "\<dots> = filter (\<lambda>x. the_key x = k) es"
    using assms by (rule sort_reverse_stable)
  also have "\<dots> = filter (\<lambda>x. date_key x = Inr k) es"
    by (rule filter_cong) (simp_all add: date_key_the_key [OF assms])
  finally show ?thesis .
qed

text \<open>
  Claim C1, as stated, fails: an entry without a date is rendered before an entry dated
  0001-01-01, which is a valid date and equal to the minimum date.
\<close>

theorem undated_before_valid_counterexample:
  "generate_section
     \<lparr>json_path = ''citations.json'', output_path = ''README.md'',
        data = JObj [(''papers'',
                 JArr [JObj [(''title'', JStr ''A'')],
                       JObj [(''title'', JStr ''B''), (''date'', JStr ''0001-01-01'')]])]\<rparr>
     ''Papers'' ''papers''
   = Inr (''## Papers\<newline>\<newline>**A** <br> [`Preprint`](#)  <br> <br> \<newline>**B** <br> [`Preprint`](#)  <br> <br> \<newline>'',
          \<lparr>json_path = ''citations.json'', output_path = ''README.md'',
             data = JObj [(''papers'',
                      JArr [JObj [(''title'', JStr ''A'')],
                            JObj [(''title'', JStr ''B''), (''date'', JStr ''0001-01-01'')]])]\<rparr>)
   \<and> \<not> has_valid_date (JObj [(''title'', JStr ''A'')])
   \<and> has_valid_date (JObj [(''title'', JStr ''B''), (''date'', JStr ''0001-01-01'')])"
  by code_simp

text \<open>
  Claim C1, amended. In the section of a category, every entry whose date is absent or not
  parseable comes after every entry whose date is valid and later than 0001-01-01. The
  section lists the entries of the category, each as many times as the input has it.
\<close>

theorem section_undated_last:
  assumes "data self = JObj d" and "map_of d key = Some (JArr es)" and "es \<noteq> []"
    and "generate_section self title key = Inr (text, g)"
  shows "\<exists>ss blocks. mapM format_entry ss = Inr blocks \<and> text = section_text title blocks
           \<and> mset ss = mset es
           \<and> (\<forall>i j. i < length ss \<and> j < length ss \<and> dated_after_min (ss ! i)
                  \<and> \<not> has_valid_date (ss ! j) \<longrightarrow> i < j)"
proof -
  obtain ss blocks where "sort_reverse date_key es = Inr ss"
    and "mapM format_entry ss = Inr blocks" and "text = section_text title blocks"
    using generate_section_sorted [OF assms] by blast
  then show ?thesis
    using undated_after_dated set_sort_reverse(2) by blast
qed

theorem section_undated_last_witness:
  "generate_section
     \<lparr>json_path = ''citations.json'', output_path = ''README.md'',
        data = JObj [(''papers'',
                 JArr [JObj [(''title'', JStr ''A'')],
                       JObj [(''title'', JStr ''B''), (''date'', JStr ''2024-01-01'')]])]\<rparr>
     ''Papers'' ''papers''
   = Inr (''## Papers\<newline>\<newline>**B** <br> [`Preprint`](#)  <br> <br> \<newline>**A** <br> [`Preprint`](#)  <br> <br> \<newline>'',
          \<lparr>json_path = ''citations.json'', output_path = ''README.md'',
             data = JObj [(''papers'',
                      JArr [JObj [(''title'', JStr ''B''), (''date'', JStr ''2024-01-01'')],
                            JObj [(''title'', JStr ''A'')]])]\<rparr>)
   \<and> (\<exists>ss blocks. mapM format_entry ss = Inr blocks
          \<and> ''## Papers\<newline>\<newline>**B** <br> [`Preprint`](#)  <br> <br> \<newline>**A** <br> [`Preprint`](#)  <br> <br> \<newline>''
              = section_text ''Papers'' blocks
          \<and> mset ss = mset [JObj [(''title'', JStr ''A'')],
                             JObj [(''title'', JStr ''B''), (''date'', JStr ''2024-01-01'')]]
          \<and> (\<forall>i j. i < length ss \<and> j < length ss \<and> dated_after_min (ss ! i)
                 \<and> \<not> has_valid_date (ss ! j) \<longrightarrow> i < j))"
proof -
  let ?es = "[JObj [(''title'', JStr ''A'')],
              JObj [(''title'', JStr ''B''), (''date'', JStr ''2024-01-01'')]]"
  let ?d = "[(''papers'', JArr ?es)]"
  let ?g = "\<lparr>json_path = ''citations.json'', output_path = ''README.md'', data = JObj ?d\<rparr>"
  have h1: "data ?g = JObj ?d" by simp
  have h2: "map_of ?d ''papers'' = Some (JArr ?es)" by simp
  have h3: "?es \<noteq> []" by simp
  have h4: "generate_section ?g ''Papers'' ''papers''
     = Inr (''## Papers\<newline>\<newline>**B** <br> [`Preprint`](#)  <br> <br> \<newline>**A** <br> [`Preprint`](#)  <br> <br> \<newline>'',
          \<lparr>json_path = ''citations.json'', output_path = ''README.md'',
             data = JObj [(''papers'',
                      JArr [JObj [(''title'', JStr ''B''), (''date'', JStr ''2024-01-01'')],
                            JObj [(''title'', JStr ''A'')]])]\<rparr>)"
    by code_simp
  show ?thesis
    using h4 section_undated_last [OF h1 h2 h3 h4] by (intro conjI) assumption+
qed

text \<open>
  Claim C2. The sort of a category is stable: the entries of the section that have one and
  the same parsed date, the minimum date of an invalid or absent date included, stand in
  the order in which the input list has them.
\<close>

theorem section_sort_stable:
  assumes "data self = JObj d" and "map_of d key = Some (JArr es)" and "es \<noteq> []"
    and "generate_section self title key = Inr (text, g)"
  shows "\<exists>ss blocks. mapM format_entry ss = Inr blocks \<and> text = section_text title blocks
           \<and> (\<forall>k. filter (\<lambda>x. date_key x = Inr k) ss = filter (\<lambda>x. date_key x = Inr k) es)"
proof -
  obtain ss blocks where "sort_reverse date_key es = Inr ss"
    and "mapM format_entry ss = Inr blocks" and "text = section_text title blocks"
    using generate_section_sorted [OF assms] by blast
  then show ?thesis
    using sort_reverse_stable_key by blast
qed

theorem section_sort_stable_witness:
  "generate_section
     \<lparr>json_path = ''citations.json'', output_path = ''README.md'',
        data = JObj [(''papers'',
                 JArr [JObj [(''title'', JStr ''A'')],
                       JObj [(''title'', JStr ''B''), (''date'', JStr ''2024-01-01'')],
                       JObj [(''title'', JStr ''C''), (''date'', JStr ''soon'')],
                       JObj [(''title'', JStr ''D''), (''date'', JStr ''2024-1-1'')]])]\<rparr>
     ''Papers'' ''papers''
   = Inr (''## Papers\<newline>\<newline>**B** <br> [`Preprint`](#)  <br> <br> \<newline>**D** <br> [`Preprint`](#)  <br> <br> \<newline>**A** <br> [`Preprint`](#)  <br> <br> \<newline>**C** <br> [`Preprint`](#)  <br> <br> \<newline>'',
          \<lparr>json_path = ''citations.json'', output_path = ''README.md'',
             data = JObj [(''papers'',
                      JArr [JObj [(''title'', JStr ''B''), (''date'', JStr ''2024-01-01'')],
                            JObj [(''title'', JStr ''D''), (''date'', JStr ''2024-1-1'')],
                            JObj [(''title'', JStr ''A'')],
                            JObj [(''title'', JStr ''C''), (''date'', JStr ''soon'')]])]\<rparr>)
   \<and> (\<exists>ss blocks. mapM format_entry ss = Inr blocks
          \<and> ''## Papers\<newline>\<newline>**B** <br> [`Preprint`](#)  <br> <br> \<newline>**D** <br> [`Preprint`](#)  <br> <br> \<newline>**A** <br> [`Preprint`](#)  <br> <br> \<newline>**C** <br> [`Preprint`](#)  <br> <br> \<newline>''
              = section_text ''Papers'' blocks
          \<and> (\<forall>k. filter (\<lambda>x. date_key x = Inr k) ss
                 = filter (\<lambda>x. date_key x = Inr k)
                     [JObj [(''title'', JStr ''A'')],
                      JObj [(''title'', JStr ''B''), (''date'', JStr ''2024-01-01'')],
                      JObj [(''title'', JStr ''C''), (''date'', JStr ''soon'')],
                      JObj [(''title'', JStr ''D''), (''date'', JStr ''2024-1-1'')]]))"
proof -
  let ?es = "[JObj [(''title'', JStr ''A'')],
              JObj [(''title'', JStr ''B''), (''date'', JStr ''2024-01-01'')],
              JObj [(''title'', JStr ''C''), (''date'', JStr ''soon'')],
              JObj [(''title'', JStr ''D''), (''date'', JStr ''2024-1-1'')]]"
  let ?d = "[(''papers'', JArr ?es)]"
  let ?g = "\<lparr>json_path = ''citations.json'', output_path = ''README.md'', data = JObj ?d\<rparr>"
  have h1: "data ?g = JObj ?d" by simp
  have h2: "map_of ?d ''papers'' = Some (JArr ?es)" by simp
  have h3: "?es \<noteq> []" by simp
  have h4: "generate_section ?g ''Papers'' ''papers''
   = Inr (''## Papers\<newline>\<newline>**B** <br> [`Preprint`](#)  <br> <br> \<newline>**D** <br> [`Preprint`](#)  <br> <br> \<newline>**A** <br> [`Preprint`](#)  <br> <br> \<newline>**C** <br> [`Preprint`](#)  <br> <br> \<newline>'',
          \<lparr>json_path = ''citations.json'', output_path = ''README.md'',
             data = JObj [(''papers'',
                      JArr [JObj [(''title'', JStr ''B''), (''date'', JStr ''2024-01-01'')],
                            JObj [(''title'', JStr ''D''), (''date'', JStr ''2024-1-1'')],
                            JObj [(''title'', JStr ''A'')],
                            JObj [(''title'', JStr ''C''), (''date'', JStr ''soon'')]])]\<rparr>)"
    by code_simp
  show ?thesis
    using h4 section_sort_stable [OF h1 h2 h3 h4] by (intro conjI) assumption+
qed

section \<open>The document\<close>

lemma section_of_generate_section:
  "map_sum id fst (generate_section self title key) = section_of (data self) title key"
  by (simp add: section_of_def generate_section_def Let_def split: json.splits sum.splits)

lemma section_of_cong:
  "map_of d1 key = map_of d2 key \<Longrightarrow> section_of (JObj d1) title key = section_of (JObj d2) title key"
  by (simp add: section_of_def generate_section_def dict_get_default_def Let_def
      split: json.splits sum.splits)

lemma generate_section_cases:
  assumes "data self = JObj d" and "generate_section self title key = Inr (text, g)"
  shows "(\<not> truthy (dict_get_default d key (JArr [])) \<and> text = [] \<and> g = self)
       \<or> (\<exists>es ss blocks. map_of d key = Some (JArr es) \<and> es \<noteq> []
             \<and> sort_reverse date_key es = Inr ss \<and> mapM format_entry ss = Inr blocks
             \<and> text = section_text title blocks
             \<and> g = self\<lparr>data := JObj (AList.update key (JArr ss) d)\<rparr>)"
proof (cases "truthy (dict_get_default d key (JArr []))")
  case False
  then show ?thesis
    using assms generate_section_falsy [OF assms(1) False] by simp
next
  case True
  then obtain es where es: "map_of d key = Some (JArr es)" "es \<noteq> []"
    using assms
    by (auto simp: generate_section_def dict_get_default_def split: option.splits json.splits)
  show ?thesis
    using generate_section_sorted [OF assms(1) es assms(2)] es by blast
qed

lemma sort_reverse_Nil: "sort_reverse f [] = Inr []"
  by (simp add: sort_reverse_def)

lemma generate_section_step:
  assumes "data self = JObj d" and "generate_section self title key = Inr (text, g)"
  shows "json_path g = json_path self \<and> output_path g = output_path self
       \<and> (\<exists>d'. data g = JObj d' \<and> map fst d' = map fst d
             \<and> (\<forall>k. k \<noteq> key \<longrightarrow> map_of d' k = map_of d k)
             \<and> (case map_of d key of
                  Some (JArr es) \<Rightarrow>
                    (\<exists>ss. sort_reverse date_key es = Inr ss \<and> mset ss = mset es
                        \<and> map_of d' key = Some (JArr ss))
                | _ \<Rightarrow> map_of d' key = map_of d key))"
  using generate_section_cases [OF assms]
proof (elim disjE conjE exE)
  assume "\<not> truthy (dict_get_default d key (JArr []))" and "g = self"
  then show ?thesis
    using assms(1)
    by (auto simp: dict_get_default_def sort_reverse_Nil split: option.splits json.splits)
next
  fix es ss blocks
  assume a: "map_of d key = Some (JArr es)" "sort_reverse date_key es = Inr ss"
    "g = self\<lparr>data := JObj (AList.update key (JArr ss) d)\<rparr>"
  have "key \<in> fst ` set d" using a(1) by (metis map_of_eq_None_iff option.distinct(1))
  then have "map fst (AList.update key (JArr ss) d) = map fst d"
    by (simp add: update_keys)
  then show ?thesis
    using a set_sort_reverse(2) [OF a(2)] by (simp add: update_conv')
qed


lemma generate_section_next:
  assumes "data self = JObj d" and "generate_section self title key = Inr (text, g)"
    and "k \<noteq> key"
  shows "section_of (data g) t k = section_of (JObj d) t k"
proof -
  obtain d' where "data g = JObj d'" and "map_of d' k = map_of d k"
    using generate_section_step [OF assms(1,2)] assms(3) by blast
  then show ?thesis using section_of_cong [of d' k d t] by simp
qed

lemma generate_section_Inr:
  assumes "generate_section self title key = Inr (text, g)"
  shows "section_of (data self) title key = Inr text"
  using section_of_generate_section [of self title key] assms by simp

lemma generate_section_Inl:
  assumes "generate_section self title key = Inl e"
  shows "section_of (data self) title key = Inl e"
  using section_of_generate_section [of self title key] assms by simp

lemma final_markdown_sections:
  assumes "data self = JObj d"
  shows "map_sum id fst (final_markdown self) =
     (case section_of (JObj d) ''Papers'' ''papers'' of
        Inl e \<Rightarrow> Inl e
      | Inr p \<Rightarrow>
          (case section_of (JObj d) ''Benchmarks'' ''benchmarks'' of
             Inl e \<Rightarrow> Inl e
           | Inr b \<Rightarrow>
               (case section_of (JObj d) ''Datasets'' ''datasets'' of
                  Inl e \<Rightarrow> Inl e
                | Inr s \<Rightarrow> Inr (join ''\<newline>'' [generate_intro, p, b, s]))))"
proof (cases "generate_section self ''Papers'' ''papers''")
  case (Inl e)
  then show ?thesis
    using generate_section_Inl [OF Inl] assms by (simp add: final_markdown_def)
next
  case (Inr r1)
  obtain p g1 where r1: "r1 = (p, g1)" by (cases r1)
  note s1 = Inr [unfolded r1]
  have p: "section_of (JObj d) ''Papers'' ''papers'' = Inr p"
    using generate_section_Inr [OF s1] assms by simp
  obtain d1 where d1: "data g1 = JObj d1"
    using generate_section_step [OF assms s1] by blast
  have b1: "section_of (data g1) ''Benchmarks'' ''benchmarks'' = section_of (JObj d) ''Benchmarks'' ''benchmarks''"
    by (rule generate_section_next [OF assms s1]) simp
  have c1: "section_of (data g1) ''Datasets'' ''datasets'' = section_of (JObj d) ''Datasets'' ''datasets''"
    by (rule generate_section_next [OF assms s1]) simp
  show ?thesis
  proof (cases "generate_section g1 ''Benchmarks'' ''benchmarks''")
    case (Inl e)
    then show ?thesis
      using generate_section_Inl [OF Inl] s1 p b1 by (simp add: final_markdown_def)
  next
    case (Inr r2)
    obtain b g2 where r2: "r2 = (b, g2)" by (cases r2)
    note s2 = Inr [unfolded r2]
    have b: "section_of (JObj d) ''Benchmarks'' ''benchmarks'' = Inr b"
      using generate_section_Inr [OF s2] b1 by simp
    have "section_of (data g2) ''Datasets'' ''datasets'' = section_of (JObj d1) ''Datasets'' ''datasets''"
      by (rule generate_section_next [OF d1 s2]) simp
    then have c2: "section_of (data g2) ''Datasets'' ''datasets'' = section_of (JObj d) ''Datasets'' ''datasets''"
      using c1 d1 by simp
    show ?thesis
    proof (cases "generate_section g2 ''Datasets'' ''datasets''")
      case (Inl e)
      then show ?thesis
        using generate_section_Inl [OF Inl] s1 s2 p b c2 by (simp add: final_markdown_def)
    next
      case (Inr r3)
      obtain s g3 where r3: "r3 = (s, g3)" by (cases r3)
      note s3 = Inr [unfolded r3]
      have "section_of (JObj d) ''Datasets'' ''datasets'' = Inr s"
        using generate_section_Inr [OF s3] c2 by simp
      then show ?thesis
        using s1 s2 s3 p b by (simp add: final_markdown_def)
    qed
  qed
qed

lemma generate_world:
  "fst (generate self w) =
     (case map_sum id fst (final_markdown self) of
        Inl e \<Rightarrow> print (''Reading from '' @ json_path self @ ''...'') w
      | Inr text \<Rightarrow>
          print (''Successfully generated '' @ output_path self @ '' with sorted entries!'')
            ((print (''Reading from '' @ json_path self @ ''...'') w)
               \<lparr>files := (files (print (''Reading from '' @ json_path self @ ''...'') w))
                           (output_path self \<mapsto> text)\<rparr>))"
  by (simp add: generate_def Let_def split: sum.splits prod.splits)

lemma final_markdown_doc:
  assumes "data self = JObj d" and "final_markdown self = Inr (doc, g)"
  shows "\<exists>p b s. section_of (JObj d) ''Papers'' ''papers'' = Inr p
           \<and> section_of (JObj d) ''Benchmarks'' ''benchmarks'' = Inr b
           \<and> section_of (JObj d) ''Datasets'' ''datasets'' = Inr s
           \<and> doc = join ''\<newline>'' [generate_intro, p, b, s]"
  using final_markdown_sections [OF assms(1)] assms(2)
  by (auto split: sum.splits)

lemma final_markdown_steps:
  assumes "final_markdown self = Inr (doc, g)"
  shows "\<exists>p g1 b g2 s.
           generate_section self ''Papers'' ''papers'' = Inr (p, g1)
         \<and> generate_section g1 ''Benchmarks'' ''benchmarks'' = Inr (b, g2)
         \<and> generate_section g2 ''Datasets'' ''datasets'' = Inr (s, g)"
  using assms by (auto simp: final_markdown_def split: sum.splits prod.splits)

lemma generate_Inr:
  assumes "generate self w = (w', Inr g)"
  shows "\<exists>doc. final_markdown self = Inr (doc, g)"
  using assms by (auto simp: generate_def Let_def split: sum.splits prod.splits)

lemma section_of_blocks:
  assumes "map_of d key = Some (JArr es)" and "es \<noteq> []"
    and "section_of (JObj d) title key = Inr text"
  shows "\<exists>blocks. length blocks = length es \<and> text = section_text title blocks"
proof -
  let ?g = "\<lparr>json_path = [], output_path = [], data = JObj d\<rparr>"
  have d: "data ?g = JObj d" by simp
  obtain g' where "generate_section ?g title key = Inr (text, g')"
    using assms(3) by (auto simp: section_of_def map_sum_def split: sum.splits)
  then obtain ss blocks where ss: "sort_reverse date_key es = Inr ss"
    and blocks: "mapM format_entry ss = Inr blocks" and tx: "text = section_text title blocks"
    using generate_section_sorted [OF d assms(1,2)] by blast
  have "length (map format_entry ss) = length (map Inr blocks :: (error + string) list)"
    using mapM_Inr_iff [OF blocks] by simp
  moreover have "length ss = length es"
    using set_sort_reverse(2) [OF ss] by (metis size_mset)
  ultimately show ?thesis using tx by auto
qed

lemma section_of_absent:
  assumes "map_of d key = None \<or> map_of d key = Some (JArr [])"
  shows "section_of (JObj d) title key = Inr []"
  using assms by (auto simp: section_of_def generate_section_def dict_get_default_def)

lemma step_other:
  assumes "data self = JObj d" and "generate_section self title key = Inr (tx, g)"
  shows "\<exists>d'. data g = JObj d' \<and> map fst d' = map fst d
           \<and> (\<forall>k. k \<noteq> key \<longrightarrow> map_of d' k = map_of d k)"
  using generate_section_step [OF assms] by blast

lemma step_key:
  assumes "data self = JObj d" and "generate_section self title key = Inr (tx, g)"
    and "data g = JObj d'"
  shows "reordered d d' key"
  using generate_section_step [OF assms(1,2)] assms(3) unfolding reordered_def by auto

lemma reordered_cong:
  assumes "reordered d1 d2 k" and "map_of d0 k = map_of d1 k" and "map_of d3 k = map_of d2 k"
  shows "reordered d0 d3 k"
  using assms by (auto simp: reordered_def split: option.splits json.splits)

text \<open>
  Claim C7. When the input path does not exist the run ends with \<^verbatim>\<open>FileNotFoundError\<close>
  before anything is produced: no file is created or changed, the output file included, and
  nothing is printed.
\<close>

theorem missing_input_no_output:
  assumes "files w jpath = None"
  shows "run loads jpath opath w = (w, Inl FileNotFoundError)"
  using assms by (simp add: run_def init_def load_data_def)

theorem missing_input_no_output_witness:
  "files \<lparr>files = [''README.md'' \<mapsto> ''old text''], stdout = []\<rparr> ''citations.json'' = None
   \<and> main (\<lambda>text. None) \<lparr>files = [''README.md'' \<mapsto> ''old text''], stdout = []\<rparr>
       = (\<lparr>files = [''README.md'' \<mapsto> ''old text''], stdout = []\<rparr>, Inl FileNotFoundError)"
proof -
  let ?w = "\<lparr>files = [''README.md'' \<mapsto> ''old text''], stdout = []\<rparr>"
  have h: "files ?w ''citations.json'' = None" by simp
  show ?thesis
    using h missing_input_no_output [OF h, of "\<lambda>text. None" "''README.md''"]
    by (simp add: main_def)
qed

text \<open>
  Claim C6. For a category whose key is absent or whose list is empty, the section is the
  empty text, so it has no heading. The document is still the introduction and the three
  sections joined by newlines, and each category with a list that is not empty has its
  section there: the heading and one block for each entry.
\<close>

theorem empty_category_omitted:
  assumes "data self = JObj d"
    and "(title, key) \<in> {(''Papers'', ''papers''), (''Benchmarks'', ''benchmarks''), (''Datasets'', ''datasets'')}"
    and "map_of d key = None \<or> map_of d key = Some (JArr [])"
    and "final_markdown self = Inr (doc, g)"
  shows "generate_section self title key = Inr ([], self)
       \<and> (\<exists>p b s. section_of (JObj d) ''Papers'' ''papers'' = Inr p
             \<and> section_of (JObj d) ''Benchmarks'' ''benchmarks'' = Inr b
             \<and> section_of (JObj d) ''Datasets'' ''datasets'' = Inr s
             \<and> doc = join ''\<newline>'' [generate_intro, p, b, s]
             \<and> section_of (JObj d) title key = Inr []
             \<and> (\<forall>es. map_of d ''papers'' = Some (JArr es) \<and> es \<noteq> [] \<longrightarrow>
                    (\<exists>blocks. length blocks = length es \<and> p = section_text ''Papers'' blocks))
             \<and> (\<forall>es. map_of d ''benchmarks'' = Some (JArr es) \<and> es \<noteq> [] \<longrightarrow>
                    (\<exists>blocks. length blocks = length es \<and> b = section_text ''Benchmarks'' blocks))
             \<and> (\<forall>es. map_of d ''datasets'' = Some (JArr es) \<and> es \<noteq> [] \<longrightarrow>
                    (\<exists>blocks. length blocks = length es \<and> s = section_text ''Datasets'' blocks)))"
proof -
  have "\<not> truthy (dict_get_default d key (JArr []))"
    using assms(3) by (auto simp: dict_get_default_def)
  with assms(1) have first: "generate_section self title key = Inr ([], self)"
    by (rule generate_section_falsy)
  from final_markdown_doc [OF assms(1,4)]
  obtain p b s where p: "section_of (JObj d) ''Papers'' ''papers'' = Inr p"
    and b: "section_of (JObj d) ''Benchmarks'' ''benchmarks'' = Inr b"
    and s: "section_of (JObj d) ''Datasets'' ''datasets'' = Inr s"
    and doc: "doc = join ''\<newline>'' [generate_intro, p, b, s]"
    by (elim exE conjE)
  have empty: "section_of (JObj d) title key = Inr []"
    using assms(3) by (rule section_of_absent)
  have bp: "\<forall>es. map_of d ''papers'' = Some (JArr es) \<and> es \<noteq> [] \<longrightarrow>
      (\<exists>blocks. length blocks = length es \<and> p = section_text ''Papers'' blocks)"
    using section_of_blocks [OF _ _ p] by (intro allI impI) (elim conjE)
  have bb: "\<forall>es. map_of d ''benchmarks'' = Some (JArr es) \<and> es \<noteq> [] \<longrightarrow>
      (\<exists>blocks. length blocks = length es \<and> b = section_text ''Benchmarks'' blocks)"
    using section_of_blocks [OF _ _ b] by (intro allI impI) (elim conjE)
  have bs: "\<forall>es. map_of d ''datasets'' = Some (JArr es) \<and> es \<noteq> [] \<longrightarrow>
      (\<exists>blocks. length blocks = length es \<and> s = section_text ''Datasets'' blocks)"
    using section_of_blocks [OF _ _ s] by (intro allI impI) (elim conjE)
  show ?thesis
    by (intro conjI exI [of _ p] exI [of _ b] exI [of _ s]) (fact first p b s doc empty bp bb bs)+
qed

theorem empty_category_omitted_witness:
  "final_markdown
     \<lparr>json_path = ''citations.json'', output_path = ''README.md'',
        data = JObj [(''papers'', JArr []), (''benchmarks'', JArr [JObj [(''title'', JStr ''X'')]])]\<rparr>
   = Inr (join ''\<newline>'' [generate_intro, [],
            ''## Benchmarks\<newline>\<newline>**X** <br> [`Preprint`](#)  <br> <br> \<newline>'', []],
          \<lparr>json_path = ''citations.json'', output_path = ''README.md'',
             data = JObj [(''papers'', JArr []), (''benchmarks'', JArr [JObj [(''title'', JStr ''X'')]])]\<rparr>)
   \<and> generate_section
       \<lparr>json_path = ''citations.json'', output_path = ''README.md'',
          data = JObj [(''papers'', JArr []), (''benchmarks'', JArr [JObj [(''title'', JStr ''X'')]])]\<rparr>
       ''Papers'' ''papers''
     = Inr ([], \<lparr>json_path = ''citations.json'', output_path = ''README.md'',
          data = JObj [(''papers'', JArr []), (''benchmarks'', JArr [JObj [(''title'', JStr ''X'')]])]\<rparr>)
   \<and> section_of (JObj [(''papers'', JArr []), (''benchmarks'', JArr [JObj [(''title'', JStr ''X'')]])])
       ''Benchmarks'' ''benchmarks''
     = Inr ''## Benchmarks\<newline>\<newline>**X** <br> [`Preprint`](#)  <br> <br> \<newline>''"
proof -
  let ?d = "[(''papers'', JArr []), (''benchmarks'', JArr [JObj [(''title'', JStr ''X'')]])]"
  let ?g = "\<lparr>json_path = ''citations.json'', output_path = ''README.md'', data = JObj ?d\<rparr>"
  let ?doc = "join ''\<newline>'' [generate_intro, [],
            ''## Benchmarks\<newline>\<newline>**X** <br> [`Preprint`](#)  <br> <br> \<newline>'', []]"
  have h1: "data ?g = JObj ?d" by simp
  have h2: "(''Papers'', ''papers'')
      \<in> {(''Papers'', ''papers''), (''Benchmarks'', ''benchmarks''), (''Datasets'', ''datasets'')}"
    by simp
  have h3: "map_of ?d ''papers'' = None \<or> map_of ?d ''papers'' = Some (JArr [])" by simp
  have h4: "final_markdown ?g = Inr (?doc, ?g)" by code_simp
  have b: "section_of (JObj ?d) ''Benchmarks'' ''benchmarks''
     = Inr ''## Benchmarks\<newline>\<newline>**X** <br> [`Preprint`](#)  <br> <br> \<newline>''"
    by code_simp
  show ?thesis
    using h4 b empty_category_omitted [OF h1 h2 h3 h4] by (intro conjI) (elim conjE, assumption)+
qed

text \<open>
  Claim C9. Two catalogs with the same values under \<^verbatim>\<open>papers\<close>, \<^verbatim>\<open>benchmarks\<close> and
  \<^verbatim>\<open>datasets\<close> give the same document, the same output file and the same printed lines,
  whatever the order of their keys and whatever other keys they have. The document is the
  introduction followed by the sections Papers, Benchmarks and Datasets, in this order.
\<close>

theorem document_from_three_categories:
  assumes "map_of d1 ''papers'' = map_of d2 ''papers''"
    and "map_of d1 ''benchmarks'' = map_of d2 ''benchmarks''"
    and "map_of d1 ''datasets'' = map_of d2 ''datasets''"
  shows "fst (generate (g\<lparr>data := JObj d1\<rparr>) w) = fst (generate (g\<lparr>data := JObj d2\<rparr>) w)
       \<and> map_sum id fst (final_markdown (g\<lparr>data := JObj d1\<rparr>))
           = map_sum id fst (final_markdown (g\<lparr>data := JObj d2\<rparr>))
       \<and> map_sum id fst (final_markdown (g\<lparr>data := JObj d1\<rparr>)) =
           (case section_of (JObj d1) ''Papers'' ''papers'' of
              Inl e \<Rightarrow> Inl e
            | Inr p \<Rightarrow>
                (case section_of (JObj d1) ''Benchmarks'' ''benchmarks'' of
                   Inl e \<Rightarrow> Inl e
                 | Inr b \<Rightarrow>
                     (case section_of (JObj d1) ''Datasets'' ''datasets'' of
                        Inl e \<Rightarrow> Inl e
                      | Inr s \<Rightarrow> Inr (join ''\<newline>'' [generate_intro, p, b, s]))))"
proof -
  have s1: "section_of (JObj d1) ''Papers'' ''papers'' = section_of (JObj d2) ''Papers'' ''papers''"
    using assms(1) by (rule section_of_cong)
  have s2: "section_of (JObj d1) ''Benchmarks'' ''benchmarks'' = section_of (JObj d2) ''Benchmarks'' ''benchmarks''"
    using assms(2) by (rule section_of_cong)
  have s3: "section_of (JObj d1) ''Datasets'' ''datasets'' = section_of (JObj d2) ''Datasets'' ''datasets''"
    using assms(3) by (rule section_of_cong)
  have f1: "data (g\<lparr>data := JObj d1\<rparr>) = JObj d1" and f2: "data (g\<lparr>data := JObj d2\<rparr>) = JObj d2"
    by simp_all
  have doc: "map_sum id fst (final_markdown (g\<lparr>data := JObj d1\<rparr>))
           = map_sum id fst (final_markdown (g\<lparr>data := JObj d2\<rparr>))"
    unfolding final_markdown_sections [OF f1] final_markdown_sections [OF f2] s1 s2 s3 ..
  have world: "fst (generate (g\<lparr>data := JObj d1\<rparr>) w) = fst (generate (g\<lparr>data := JObj d2\<rparr>) w)"
    unfolding generate_world doc by (simp split: sum.splits)
  show ?thesis
    using world doc final_markdown_sections [OF f1] by (intro conjI)
qed

theorem document_from_three_categories_witness:
  "map_of [(''papers'', JArr [JObj [(''title'', JStr ''A'')]]), (''benchmarks'', JArr [])] ''papers''
     = map_of [(''notes'', JStr ''x''), (''benchmarks'', JArr []),
               (''papers'', JArr [JObj [(''title'', JStr ''A'')]])] ''papers''
   \<and> map_of [(''papers'', JArr [JObj [(''title'', JStr ''A'')]]), (''benchmarks'', JArr [])] ''benchmarks''
     = map_of [(''notes'', JStr ''x''), (''benchmarks'', JArr []),
               (''papers'', JArr [JObj [(''title'', JStr ''A'')]])] ''benchmarks''
   \<and> map_of [(''papers'', JArr [JObj [(''title'', JStr ''A'')]]), (''benchmarks'', JArr [])] ''datasets''
     = map_of [(''notes'', JStr ''x''), (''benchmarks'', JArr []),
               (''papers'', JArr [JObj [(''title'', JStr ''A'')]])] ''datasets''
   \<and> fst (generate
          \<lparr>json_path = ''citations.json'', output_path = ''README.md'',
             data = JObj [(''papers'', JArr [JObj [(''title'', JStr ''A'')]]), (''benchmarks'', JArr [])]\<rparr>
          \<lparr>files = Map.empty, stdout = []\<rparr>)
     = fst (generate
          \<lparr>json_path = ''citations.json'', output_path = ''README.md'',
             data = JObj [(''notes'', JStr ''x''), (''benchmarks'', JArr []),
                          (''papers'', JArr [JObj [(''title'', JStr ''A'')]])]\<rparr>
          \<lparr>files = Map.empty, stdout = []\<rparr>)
   \<and> map_sum id fst (final_markdown
          \<lparr>json_path = ''citations.json'', output_path = ''README.md'',
             data = JObj [(''notes'', JStr ''x''), (''benchmarks'', JArr []),
                          (''papers'', JArr [JObj [(''title'', JStr ''A'')]])]\<rparr>)
     = Inr (join ''\<newline>'' [generate_intro,
              ''## Papers\<newline>\<newline>**A** <br> [`Preprint`](#)  <br> <br> \<newline>'', [], []])"
proof -
  let ?d1 = "[(''papers'', JArr [JObj [(''title'', JStr ''A'')]]), (''benchmarks'', JArr [])]"
  let ?d2 = "[(''notes'', JStr ''x''), (''benchmarks'', JArr []),
              (''papers'', JArr [JObj [(''title'', JStr ''A'')]])]"
  let ?g = "\<lparr>json_path = ''citations.json'', output_path = ''README.md'', data = JNull\<rparr>"
  let ?w = "\<lparr>files = Map.empty, stdout = []\<rparr>"
  have h1: "map_of ?d1 ''papers'' = map_of ?d2 ''papers''" by simp
  have h2: "map_of ?d1 ''benchmarks'' = map_of ?d2 ''benchmarks''" by simp
  have h3: "map_of ?d1 ''datasets'' = map_of ?d2 ''datasets''" by simp
  have doc: "map_sum id fst (final_markdown
          \<lparr>json_path = ''citations.json'', output_path = ''README.md'', data = JObj ?d1\<rparr>)
     = Inr (join ''\<newline>'' [generate_intro,
              ''## Papers\<newline>\<newline>**A** <br> [`Preprint`](#)  <br> <br> \<newline>'', [], []])"
    by code_simp
  show ?thesis
    using h1 h2 h3 doc document_from_three_categories [OF h1 h2 h3, of ?g ?w] by simp
qed

text \<open>
  Claim C8, as stated, fails: generating sorts the list of a category in place, so the
  catalog in memory has its entries in another order afterwards.
\<close>

theorem catalog_reordered_counterexample:
  "snd (generate
     \<lparr>json_path = ''citations.json'', output_path = ''README.md'',
        data = JObj [(''papers'',
                 JArr [JObj [(''title'', JStr ''A''), (''date'', JStr ''2023-01-01'')],
                       JObj [(''title'', JStr ''B''), (''date'', JStr ''2024-01-01'')]])]\<rparr>
     \<lparr>files = Map.empty, stdout = []\<rparr>)
   = Inr \<lparr>json_path = ''citations.json'', output_path = ''README.md'',
        data = JObj [(''papers'',
                 JArr [JObj [(''title'', JStr ''B''), (''date'', JStr ''2024-01-01'')],
                       JObj [(''title'', JStr ''A''), (''date'', JStr ''2023-01-01'')]])]\<rparr>
   \<and> JObj [(''papers'',
                 JArr [JObj [(''title'', JStr ''B''), (''date'', JStr ''2024-01-01'')],
                       JObj [(''title'', JStr ''A''), (''date'', JStr ''2023-01-01'')]])]
     \<noteq> JObj [(''papers'',
                 JArr [JObj [(''title'', JStr ''A''), (''date'', JStr ''2023-01-01'')],
                       JObj [(''title'', JStr ''B''), (''date'', JStr ''2024-01-01'')]])]"
proof
  show "snd (generate
     \<lparr>json_path = ''citations.json'', output_path = ''README.md'',
        data = JObj [(''papers'',
                 JArr [JObj [(''title'', JStr ''A''), (''date'', JStr ''2023-01-01'')],
                       JObj [(''title'', JStr ''B''), (''date'', JStr ''2024-01-01'')]])]\<rparr>
     \<lparr>files = Map.empty, stdout = []\<rparr>)
   = Inr \<lparr>json_path = ''citations.json'', output_path = ''README.md'',
        data = JObj [(''papers'',
                 JArr [JObj [(''title'', JStr ''B''), (''date'', JStr ''2024-01-01'')],
                       JObj [(''title'', JStr ''A''), (''date'', JStr ''2023-01-01'')]])]\<rparr>"
    by code_simp
next
  show "JObj [(''papers'',
                 JArr [JObj [(''title'', JStr ''B''), (''date'', JStr ''2024-01-01'')],
                       JObj [(''title'', JStr ''A''), (''date'', JStr ''2023-01-01'')]])]
     \<noteq> JObj [(''papers'',
                 JArr [JObj [(''title'', JStr ''A''), (''date'', JStr ''2023-01-01'')],
                       JObj [(''title'', JStr ''B''), (''date'', JStr ''2024-01-01'')]])]"
    by simp
qed

text \<open>
  Claim C8, amended. Generating changes nothing of the generator but the order of the
  entries inside the lists of the three categories: the paths, the keys of the catalog and
  their order, and the value of every other key are as loaded, and the list of each
  category holds the same entries as before, in the order of the sort.
\<close>

theorem catalog_only_reordered:
  assumes "data self = JObj d" and "generate self w = (w', Inr g)"
  shows "json_path g = json_path self \<and> output_path g = output_path self
       \<and> (\<exists>d'. data g = JObj d' \<and> map fst d' = map fst d
             \<and> (\<forall>k. k \<notin> {''papers'', ''benchmarks'', ''datasets''} \<longrightarrow> map_of d' k = map_of d k)
             \<and> reordered d d' ''papers'' \<and> reordered d d' ''benchmarks''
             \<and> reordered d d' ''datasets'')"
proof -
  obtain doc where "final_markdown self = Inr (doc, g)"
    using generate_Inr [OF assms(2)] by blast
  from final_markdown_steps [OF this]
  obtain p g1 b g2 s where s1: "generate_section self ''Papers'' ''papers'' = Inr (p, g1)"
    and s2: "generate_section g1 ''Benchmarks'' ''benchmarks'' = Inr (b, g2)"
    and s3: "generate_section g2 ''Datasets'' ''datasets'' = Inr (s, g)"
    by (elim exE conjE)
  from step_other [OF assms(1) s1]
  obtain d1 where d1: "data g1 = JObj d1" "map fst d1 = map fst d"
    "\<forall>k. k \<noteq> ''papers'' \<longrightarrow> map_of d1 k = map_of d k"
    by (elim exE conjE)
  from step_other [OF d1(1) s2]
  obtain d2 where d2: "data g2 = JObj d2" "map fst d2 = map fst d1"
    "\<forall>k. k \<noteq> ''benchmarks'' \<longrightarrow> map_of d2 k = map_of d1 k"
    by (elim exE conjE)
  from step_other [OF d2(1) s3]
  obtain d3 where d3: "data g = JObj d3" "map fst d3 = map fst d2"
    "\<forall>k. k \<noteq> ''datasets'' \<longrightarrow> map_of d3 k = map_of d2 k"
    by (elim exE conjE)
  have paths: "json_path g = json_path self \<and> output_path g = output_path self"
    using generate_section_step [OF assms(1) s1] generate_section_step [OF d1(1) s2]
      generate_section_step [OF d2(1) s3] by simp
  have keys: "map fst d3 = map fst d" using d1(2) d2(2) d3(2) by simp
  have others: "\<forall>k. k \<notin> {''papers'', ''benchmarks'', ''datasets''} \<longrightarrow> map_of d3 k = map_of d k"
    using d1(3) d2(3) d3(3) by simp
  have rp: "reordered d d3 ''papers''"
    by (rule reordered_cong [OF step_key [OF assms(1) s1 d1(1)]]) (simp_all add: d2(3) d3(3))
  have rb: "reordered d d3 ''benchmarks''"
    by (rule reordered_cong [OF step_key [OF d1(1) s2 d2(1)]]) (simp_all add: d1(3) d3(3))
  have rd: "reordered d d3 ''datasets''"
    by (rule reordered_cong [OF step_key [OF d2(1) s3 d3(1)]]) (simp_all add: d1(3) d2(3))
  show ?thesis
    using paths by (intro conjI exI [of _ d3]) (simp_all add: d3(1) keys others rp rb rd)
qed

theorem catalog_only_reordered_witness:
  "snd (generate
     \<lparr>json_path = ''citations.json'', output_path = ''README.md'',
        data = JObj [(''papers'',
                 JArr [JObj [(''title'', JStr ''A''), (''date'', JStr ''2023-01-01'')],
                       JObj [(''title'', JStr ''B''), (''date'', JStr ''2024-01-01'')]]),
                     (''notes'', JStr ''x'')]\<rparr>
     \<lparr>files = Map.empty, stdout = []\<rparr>)
   = Inr \<lparr>json_path = ''citations.json'', output_path = ''README.md'',
        data = JObj [(''papers'',
                 JArr [JObj [(''title'', JStr ''B''), (''date'', JStr ''2024-01-01'')],
                       JObj [(''title'', JStr ''A''), (''date'', JStr ''2023-01-01'')]]),
                     (''notes'', JStr ''x'')]\<rparr>
   \<and> (\<exists>d'. JObj [(''papers'',
                 JArr [JObj [(''title'', JStr ''B''), (''date'', JStr ''2024-01-01'')],
                       JObj [(''title'', JStr ''A''), (''date'', JStr ''2023-01-01'')]]),
                     (''notes'', JStr ''x'')] = JObj d'
          \<and> map fst d' = [''papers'', ''notes'']
          \<and> map_of d' ''notes'' = Some (JStr ''x'')
          \<and> reordered [(''papers'',
                 JArr [JObj [(''title'', JStr ''A''), (''date'', JStr ''2023-01-01'')],
                       JObj [(''title'', JStr ''B''), (''date'', JStr ''2024-01-01'')]]),
                     (''notes'', JStr ''x'')] d' ''papers'')"
proof -
  let ?d = "[(''papers'',
                 JArr [JObj [(''title'', JStr ''A''), (''date'', JStr ''2023-01-01'')],
                       JObj [(''title'', JStr ''B''), (''date'', JStr ''2024-01-01'')]]),
                     (''notes'', JStr ''x'')]"
  let ?d' = "[(''papers'',
                 JArr [JObj [(''title'', JStr ''B''), (''date'', JStr ''2024-01-01'')],
                       JObj [(''title'', JStr ''A''), (''date'', JStr ''2023-01-01'')]]),
                     (''notes'', JStr ''x'')]"
  let ?g = "\<lparr>json_path = ''citations.json'', output_path = ''README.md'', data = JObj ?d\<rparr>"
  let ?g' = "\<lparr>json_path = ''citations.json'', output_path = ''README.md'', data = JObj ?d'\<rparr>"
  let ?w = "\<lparr>files = Map.empty, stdout = []\<rparr>"
  have h1: "data ?g = JObj ?d" by simp
  have s: "snd (generate ?g ?w) = Inr ?g'" by code_simp
  then have h2: "generate ?g ?w = (fst (generate ?g ?w), Inr ?g')"
    by (metis prod.collapse)
  show ?thesis
    using s catalog_only_reordered [OF h1 h2] by auto
qed

end
